theory Spec2Isabelle
  imports Main "HOL-Library.Sublist"
begin

section \<open>The HTTP VCR proxy of \<^verbatim>\<open>http_vcr.go\<close>\<close>

text \<open>
  The development embeds \<^verbatim>\<open>src/http_vcr.go\<close>: the session constructor
  \<^verbatim>\<open>NewHttpVcr\<close>, the proxy \<^verbatim>\<open>handler\<close> with its two sources of a
  response (\<^verbatim>\<open>getResponseFromRemote\<close>, \<^verbatim>\<open>getNextRecordedCassetteResponse\<close>),
  the error helper \<^verbatim>\<open>handleErrorInHandler\<close> and \<^verbatim>\<open>InitializeServer\<close> with
  its two routes.

  Everything the Go code mutates is passed explicitly: the \<open>world\<close> (file system,
  remote origin, and a chronological trace of the observable effects), the
  \<open>ResponseWriter\<close> of the request being served, and the session \<open>HttpVcr\<close>, whose
  pointer fields hold the state of the object they point to (\<open>None\<close> is Go's \<open>nil\<close>).
  A Go panic is an outcome of its own, carrying the state reached when it was raised.
  Handlers are modelled one request at a time. \<^verbatim>\<open>main\<close> and
  \<^verbatim>\<open>generateSelfSignedCertificates\<close> are not embedded, and the deferred
  \<^verbatim>\<open>resp.Body.Close()\<close> of line 87 has no effect on the modelled state.
\<close>

subsection \<open>Errors and panics\<close>

datatype errno = ENOENT | ENOTDIR | EACCES | ENOSPC

datatype error =
    PathError string string errno  \<comment> \<open>\<^verbatim>\<open>*os.PathError\<close>: operation, path, cause\<close>
  | InvalidMethod string           \<comment> \<open>\<^verbatim>\<open>http.NewRequest\<close> rejected the method\<close>
  | URLParseError string           \<comment> \<open>\<^verbatim>\<open>http.NewRequest\<close> could not parse the URL\<close>
  | TransportError string          \<comment> \<open>\<^verbatim>\<open>client.Do\<close> could not get a response\<close>
  | ReadError string               \<comment> \<open>reading a response body failed\<close>
  | MalformedCassette string
  | RecorderClosed
  | NoMatch
  | Exhausted

datatype panic =
    NilPointerDereference
  | InvalidWriteHeaderCode int

text \<open>
  A call either returns a value in a state, or panics in the state it had reached.
\<close>

datatype ('a, 's) outcome = Returns 'a 's | Panics panic 's

fun errno_text :: "errno \<Rightarrow> string" where
  "errno_text ENOENT = ''no such file or directory''"
| "errno_text ENOTDIR = ''not a directory''"
| "errno_text EACCES = ''permission denied''"
| "errno_text ENOSPC = ''no space left on device''"

text \<open>\<^verbatim>\<open>err.Error()\<close>, the text that the console output prints for an error.\<close>

fun Error :: "error \<Rightarrow> string" where
  "Error (PathError operation path e) = operation @ '' '' @ path @ '': '' @ errno_text e"
| "Error (InvalidMethod m) = ''net/http: invalid method '' @ m"
| "Error (URLParseError u) = ''parse '' @ u"
| "Error (TransportError msg) = msg"
| "Error (ReadError msg) = msg"
| "Error (MalformedCassette msg) = ''malformed cassette: '' @ msg"
| "Error RecorderClosed = ''recorder closed''"
| "Error NoMatch = ''no recorded interaction matches the request''"
| "Error Exhausted = ''no recorded interactions left''"

text \<open>\<^verbatim>\<open>os.IsNotExist\<close>: false on \<open>nil\<close>, true on a path error caused by \<open>ENOENT\<close>.\<close>

fun os_IsNotExist :: "error option \<Rightarrow> bool" where
  "os_IsNotExist (Some (PathError operation path ENOENT)) = True"
| "os_IsNotExist err = False"

subsection \<open>HTTP messages\<close>

type_synonym bytes = string

text \<open>
  \<^verbatim>\<open>http.Header\<close> is a \<^verbatim>\<open>map[string][]string\<close>. The three keys the program uses
  (\<^verbatim>\<open>Authorization\<close>, \<^verbatim>\<open>Content-Type\<close>, \<^verbatim>\<open>Content-Length\<close>) are already in
  canonical form, so key canonicalisation is the identity on them.
\<close>

type_synonym Header = "string \<rightharpoonup> string list"

definition Header_Get :: "Header \<Rightarrow> string \<Rightarrow> string" where
  "Header_Get h key = (case h key of None \<Rightarrow> [] | Some [] \<Rightarrow> [] | Some (v # vs) \<Rightarrow> v)"

definition Header_Set :: "Header \<Rightarrow> string \<Rightarrow> string \<Rightarrow> Header" where
  "Header_Set h key v = h(key \<mapsto> [v])"

definition Header_Add :: "Header \<Rightarrow> string \<Rightarrow> string \<Rightarrow> Header" where
  "Header_Add h key v = h(key \<mapsto> (case h key of None \<Rightarrow> [v] | Some vs \<Rightarrow> vs @ [v]))"

text \<open>
  An inbound \<^verbatim>\<open>*http.Request\<close>: the fields the program and the library read.
  \<open>URLPath\<close> is \<^verbatim>\<open>r.URL.Path\<close>. For a request that the server has read, the request
  URI is \<^verbatim>\<open>*\<close> exactly when the parsed path is \<^verbatim>\<open>*\<close>; the tests the library makes
  on the former are made on the path here.
\<close>

record request =
  Method :: string
  RequestURI :: string
  URLPath :: string
  ProtoMajor :: nat
  ProtoMinor :: nat
  ReqHeader :: Header
  ReqBody :: bytes

definition ProtoAtLeast :: "request \<Rightarrow> nat \<Rightarrow> nat \<Rightarrow> bool" where
  "ProtoAtLeast r major minor =
     (major < ProtoMajor r \<or> (ProtoMajor r = major \<and> minor \<le> ProtoMinor r))"

text \<open>A body stream: \<^verbatim>\<open>ioutil.ReadAll\<close> returns the bytes read and the error, if any.\<close>

datatype body = Bytes bytes | Failing bytes error

fun ReadAll :: "body \<Rightarrow> bytes \<times> error option" where
  "ReadAll (Bytes bs) = (bs, None)"
| "ReadAll (Failing bs e) = (bs, Some e)"

record response =
  Status :: string
  StatusCode :: int
  RespHeader :: Header
  Body :: body

text \<open>The zero value \<^verbatim>\<open>http.Response{}\<close>.\<close>

definition empty_Response :: response where
  "empty_Response = \<lparr>Status = [], StatusCode = 0, RespHeader = Map.empty, Body = Bytes []\<rparr>"

text \<open>An outbound request made by \<^verbatim>\<open>http.NewRequest\<close> with a \<open>nil\<close> body.\<close>

record client_request =
  cMethod :: string
  cURL :: string
  cHeader :: Header

type_synonym interaction = "request \<times> response"

subsection \<open>The world: files, remote origin, observable trace\<close>

datatype file_content = Cassette "interaction list" | Garbage

datatype event =
    Stdout string                    \<comment> \<open>one \<^verbatim>\<open>fmt.Print*\<close> call\<close>
  | ClientDo client_request          \<comment> \<open>\<^verbatim>\<open>client.Do\<close> was called with this request\<close>
  | CallerInformational int          \<comment> \<open>an informational (1xx) response was sent to the caller\<close>
  | CallerStatus int                 \<comment> \<open>the response status was committed to the caller\<close>
  | CallerBody bytes                 \<comment> \<open>body bytes were written to the caller\<close>
  | FileRemoved string
  | RecorderCreated string
  | CassetteAppend string interaction
  | RecorderClose string

text \<open>
  \<open>files\<close> maps a path to its content. \<open>missing p\<close> is the error with which the
  lookup of a path that holds no file fails: \<open>ENOENT\<close> when only the file is missing,
  \<open>ENOTDIR\<close> or \<open>EACCES\<close> when the path cannot be walked (a component is a plain
  file, or a directory may not be searched). \<open>denied p = Some e\<close> says that removing,
  creating or writing the file at \<open>p\<close> fails with \<open>e\<close>. \<open>origin\<close> is the answer of the
  remote to a request, \<open>url_ok\<close> says which strings \<^verbatim>\<open>url.Parse\<close> accepts.
\<close>

record world =
  files :: "string \<rightharpoonup> file_content"
  missing :: "string \<Rightarrow> errno"
  denied :: "string \<rightharpoonup> errno"
  origin :: "client_request \<Rightarrow> error + response"
  url_ok :: "string \<Rightarrow> bool"
  trace :: "event list"

definition emit :: "event \<Rightarrow> world \<Rightarrow> world" where
  "emit e wd = wd\<lparr>trace := trace wd @ [e]\<rparr>"

definition os_Stat :: "string \<Rightarrow> world \<Rightarrow> error option" where
  "os_Stat path wd =
     (case files wd path of
        None \<Rightarrow> Some (PathError ''stat'' path (missing wd path))
      | Some f \<Rightarrow> None)"

definition os_Remove :: "string \<Rightarrow> world \<Rightarrow> error option \<times> world" where
  "os_Remove path wd =
     (case files wd path of
        None \<Rightarrow> (Some (PathError ''remove'' path (missing wd path)), wd)
      | Some f \<Rightarrow>
          (case denied wd path of
             Some e \<Rightarrow> (Some (PathError ''remove'' path e), wd)
           | None \<Rightarrow> (None, emit (FileRemoved path) (wd\<lparr>files := (files wd)(path := None)\<rparr>))))"

subsection \<open>Recorder\<close>

text \<open>
  Modelled from the spec: the type \<^verbatim>\<open>VcrRecorder\<close> is not in \<^verbatim>\<open>http_vcr.go\<close>.
  Its state is the spec's \<open>{ targetPath, openHandle, interactionsWrittenCount }\<close>,
  the handle being open until \<open>Close\<close>.
\<close>

record VcrRecorder =
  targetPath :: string
  closed :: bool
  interactionsWrittenCount :: nat

text \<open>
  Modelled from the spec: \<^verbatim>\<open>NewRecorder\<close> is not in \<^verbatim>\<open>http_vcr.go\<close>. It is
  the creating half of the spec's \<open>Create(path)\<close>: it makes an empty cassette at
  the path and returns the recorder, or fails with an I/O error and returns \<open>nil\<close>.
\<close>

definition NewRecorder :: "string \<Rightarrow> world \<Rightarrow> VcrRecorder option \<times> error option \<times> world" where
  "NewRecorder path wd =
     (case denied wd path of
        Some e \<Rightarrow> (None, Some (PathError ''open'' path e), wd)
      | None \<Rightarrow>
          (Some \<lparr>targetPath = path, closed = False, interactionsWrittenCount = 0\<rparr>, None,
           emit (RecorderCreated path) (wd\<lparr>files := (files wd)(path \<mapsto> Cassette [])\<rparr>)))"

text \<open>
  Modelled from the spec: the recorder's \<^verbatim>\<open>Write\<close> is not in \<^verbatim>\<open>http_vcr.go\<close>.
  It is the spec's \<open>Append(request, response)\<close>: the pair is committed at the end
  of the cassette file before the call returns, or the call fails with an I/O error,
  or with \<open>RecorderClosed\<close> after \<open>Close\<close>. \<open>cassette_append\<close> is the new file
  content.
\<close>

definition cassette_append :: "file_content option \<Rightarrow> interaction \<Rightarrow> file_content" where
  "cassette_append f ia = (case f of Some (Cassette ias) \<Rightarrow> Cassette (ias @ [ia]) | _ \<Rightarrow> Cassette [ia])"

definition Recorder_Write ::
  "VcrRecorder \<Rightarrow> request \<Rightarrow> response \<Rightarrow> world \<Rightarrow> VcrRecorder \<times> error option \<times> world" where
  "Recorder_Write rec req resp wd =
     (if closed rec then (rec, Some RecorderClosed, wd)
      else
        (case denied wd (targetPath rec) of
           Some e \<Rightarrow> (rec, Some (PathError ''write'' (targetPath rec) e), wd)
         | None \<Rightarrow>
             (rec\<lparr>interactionsWrittenCount := Suc (interactionsWrittenCount rec)\<rparr>, None,
              emit (CassetteAppend (targetPath rec) (req, resp))
                (wd\<lparr>files := (files wd)(targetPath rec \<mapsto>
                   cassette_append (files wd (targetPath rec)) (req, resp))\<rparr>))))"

text \<open>
  Modelled from the spec: the recorder's \<^verbatim>\<open>Close\<close> is not in \<^verbatim>\<open>http_vcr.go\<close>.
  It finalises the file; afterwards the recorder accepts no append.
\<close>

definition Recorder_Close :: "VcrRecorder \<Rightarrow> world \<Rightarrow> VcrRecorder \<times> error option \<times> world" where
  "Recorder_Close rec wd =
     (if closed rec then (rec, Some RecorderClosed, wd)
      else (rec\<lparr>closed := True\<rparr>, None, emit (RecorderClose (targetPath rec)) wd))"

text \<open>
  Modelled from the spec: \<^verbatim>\<open>NewSerializableHttpRequest\<close> is not in
  \<^verbatim>\<open>http_vcr.go\<close>. The serialisable form keeps every field of the request.
\<close>

definition NewSerializableHttpRequest :: "request \<Rightarrow> request" where
  "NewSerializableHttpRequest r = r"

text \<open>
  Modelled from the spec: \<^verbatim>\<open>NewSerializableHttpResponse\<close> is not in
  \<^verbatim>\<open>http_vcr.go\<close>. The serialisable form keeps every field of the response, the
  body read into bytes.
\<close>

definition NewSerializableHttpResponse :: "response \<Rightarrow> response" where
  "NewSerializableHttpResponse resp = resp\<lparr>Body := Bytes (fst (ReadAll (Body resp)))\<rparr>"

subsection \<open>Comparator and replayer\<close>

type_synonym comparator = "request \<Rightarrow> request \<Rightarrow> bool \<times> bool"

text \<open>The closure of lines 42-44: it ignores both arguments.\<close>

definition sequentialComparator :: comparator where
  "sequentialComparator req1 req2 = (True, True)"

text \<open>
  Modelled from the spec: the type \<^verbatim>\<open>VcrReplayer\<close> is not in \<^verbatim>\<open>http_vcr.go\<close>.
  Its state is the loaded cassette, one consumption mark per interaction, and the
  comparator it was created with.
\<close>

record VcrReplayer =
  interactions :: "interaction list"
  consumed :: "bool list"
  compare :: comparator

text \<open>
  Modelled from the spec: \<^verbatim>\<open>NewReplayer\<close> is not in \<^verbatim>\<open>http_vcr.go\<close>. It loads
  the whole cassette once, nothing consumed yet; it fails when the file is absent or
  is not a cassette. The two prototype values the source passes tell the loader the
  types to decode into and are left out.
\<close>

definition NewReplayer ::
  "string \<Rightarrow> comparator \<Rightarrow> world \<Rightarrow> VcrReplayer option \<times> error option" where
  "NewReplayer path cmp wd =
     (case files wd path of
        None \<Rightarrow> (None, Some (PathError ''open'' path (missing wd path)))
      | Some Garbage \<Rightarrow> (None, Some (MalformedCassette path))
      | Some (Cassette ias) \<Rightarrow>
          (Some \<lparr>interactions = ias, consumed = replicate (length ias) False, compare = cmp\<rparr>,
           None))"

text \<open>
  Modelled from the spec: the replayer's \<^verbatim>\<open>Write\<close> (the spec's \<open>Resolve\<close>) is not
  in \<^verbatim>\<open>http_vcr.go\<close>. It fails with \<open>Exhausted\<close> when no interaction is
  unconsumed; otherwise \<open>scan\<close> goes through the unconsumed interactions in recorded
  order and asks the comparator about each: on \<open>accept\<close> the interaction is marked
  consumed and its response returned; on \<open>shortCircuit\<close> without \<open>accept\<close> the scan
  stops; a scan that ends without \<open>accept\<close> fails with \<open>NoMatch\<close>.
\<close>

fun scan :: "comparator \<Rightarrow> request \<Rightarrow> (interaction \<times> bool) list \<Rightarrow> nat \<Rightarrow> (nat \<times> response) option" where
  "scan cmp req [] i = None"
| "scan cmp req ((ia, used) # rest) i =
     (if used then scan cmp req rest (Suc i)
      else
        (case cmp req (fst ia) of
           (accept, shortCircuit) \<Rightarrow>
             if accept then Some (i, snd ia)
             else if shortCircuit then None
             else scan cmp req rest (Suc i)))"

definition Replayer_Write :: "VcrReplayer \<Rightarrow> request \<Rightarrow> VcrReplayer \<times> response option \<times> error option" where
  "Replayer_Write rp req =
     (if list_all (\<lambda>(ia, used). used) (zip (interactions rp) (consumed rp))
      then (rp, None, Some Exhausted)
      else
        (case scan (compare rp) req (zip (interactions rp) (consumed rp)) 0 of
           None \<Rightarrow> (rp, None, Some NoMatch)
         | Some (i, resp) \<Rightarrow> (rp\<lparr>consumed := (consumed rp)[i := True]\<rparr>, Some resp, None)))"

subsection \<open>The session and its constructor\<close>

record HttpVcr =
  recorder :: "VcrRecorder option"
  replayer :: "VcrReplayer option"
  recordMode :: bool
  remoteURL :: string

text \<open>The zero value \<^verbatim>\<open>HttpVcr{}\<close> of line 22.\<close>

definition zero_HttpVcr :: HttpVcr where
  "zero_HttpVcr = \<lparr>recorder = None, replayer = None, recordMode = False, remoteURL = []\<rparr>"

text \<open>
  \<^verbatim>\<open>NewHttpVcr\<close>, lines 21-54. The early returns of lines 29 and 39 return the session
  as it is at that point, before \<open>recordMode\<close> and \<open>remoteURL\<close> are assigned.
\<close>

definition NewHttpVcr :: "string \<Rightarrow> bool \<Rightarrow> string \<Rightarrow> world \<Rightarrow> HttpVcr \<times> error option \<times> world" where
  "NewHttpVcr filepath mode url wd =
     (let vcr = zero_HttpVcr in
      if mode then
        (case (if \<not> os_IsNotExist (os_Stat filepath wd) then os_Remove filepath wd else (None, wd)) of
           (Some err, wd1) \<Rightarrow> (vcr, Some err, wd1)
         | (None, wd1) \<Rightarrow>
             (case NewRecorder filepath wd1 of
                (rec, e, wd2) \<Rightarrow>
                  (vcr\<lparr>recorder := rec, recordMode := mode, remoteURL := url\<rparr>, e, wd2)))
      else
        (if os_IsNotExist (os_Stat filepath wd) then (vcr, os_Stat filepath wd, wd)
         else
           (case NewReplayer filepath sequentialComparator wd of
              (rep, e) \<Rightarrow>
                (vcr\<lparr>replayer := rep, recordMode := mode, remoteURL := url\<rparr>, e, wd))))"

subsection \<open>The response writer of \<^verbatim>\<open>net/http\<close>\<close>

text \<open>
  \<^verbatim>\<open>http.ResponseWriter\<close>, by its documented contract. \<open>handlerHeader\<close> is the map
  that \<^verbatim>\<open>w.Header()\<close> returns. \<^verbatim>\<open>WriteHeader\<close> commits the status together with
  the headers present at that moment (\<open>sentHeader\<close>); changing the header map after a
  call to \<^verbatim>\<open>WriteHeader\<close> or \<^verbatim>\<open>Write\<close> has no effect on the response. A second
  \<^verbatim>\<open>WriteHeader\<close> is ignored and a status code outside 100..999 panics. An
  informational code (1xx other than 101) is sent at once as an interim response and
  commits nothing: the header map stays open and the final status is still to come.
  A \<^verbatim>\<open>Write\<close> before any committing \<^verbatim>\<open>WriteHeader\<close> commits status 200 first.
  Writes to the caller are taken to succeed, and the library's dropping of the body of
  a response that allows none is left out.
\<close>

record ResponseWriter =
  handlerHeader :: Header
  wroteHeader :: bool
  status :: int
  sentHeader :: Header
  written :: bytes

definition new_ResponseWriter :: ResponseWriter where
  "new_ResponseWriter =
     \<lparr>handlerHeader = Map.empty, wroteHeader = False, status = 0, sentHeader = Map.empty,
      written = []\<rparr>"

definition commit :: "int \<Rightarrow> ResponseWriter \<Rightarrow> world \<Rightarrow> ResponseWriter \<times> world" where
  "commit code w wd =
     (w\<lparr>wroteHeader := True, status := code, sentHeader := handlerHeader w\<rparr>,
      emit (CallerStatus code) wd)"

definition WriteHeader :: "int \<Rightarrow> ResponseWriter \<Rightarrow> world \<Rightarrow> (unit, ResponseWriter \<times> world) outcome" where
  "WriteHeader code w wd =
     (if wroteHeader w then Returns () (w, wd)
      else if code < 100 \<or> 999 < code then Panics (InvalidWriteHeaderCode code) (w, wd)
      else if code \<le> 199 \<and> code \<noteq> 101 then Returns () (w, emit (CallerInformational code) wd)
      else Returns () (commit code w wd))"

definition Write :: "bytes \<Rightarrow> ResponseWriter \<Rightarrow> world \<Rightarrow> ResponseWriter \<times> world" where
  "Write bs w wd =
     (case (if wroteHeader w then (w, wd) else commit 200 w wd) of
        (w1, wd1) \<Rightarrow> (w1\<lparr>written := written w1 @ bs\<rparr>, emit (CallerBody bs) wd1))"

text \<open>\<^verbatim>\<open>w.Header().Set(key, v)\<close>.\<close>

definition w_Header_Set :: "string \<Rightarrow> string \<Rightarrow> ResponseWriter \<Rightarrow> ResponseWriter" where
  "w_Header_Set key v w = w\<lparr>handlerHeader := Header_Set (handlerHeader w) key v\<rparr>"

text \<open>
  \<^verbatim>\<open>io.Copy(w, bytes.NewBuffer(b))\<close>: the buffer writes itself to \<open>w\<close> in one
  \<^verbatim>\<open>Write\<close>, and makes no call when it is empty.
\<close>

definition io_Copy :: "bytes \<Rightarrow> ResponseWriter \<Rightarrow> world \<Rightarrow> ResponseWriter \<times> world" where
  "io_Copy bs w wd = (if bs = [] then (w, wd) else Write bs w wd)"

subsection \<open>Console output\<close>

definition nl :: string where
  "nl = [CHR 0x0A]"

definition Print :: "string \<Rightarrow> world \<Rightarrow> world" where
  "Print s wd = emit (Stdout s) wd"

subsection \<open>\<^verbatim>\<open>handleErrorInHandler\<close>, lines 56-64\<close>

definition handleErrorInHandler ::
  "error option \<Rightarrow> ResponseWriter \<Rightarrow> world \<Rightarrow> (unit, ResponseWriter \<times> world) outcome" where
  "handleErrorInHandler err w wd =
     (case err of
        None \<Rightarrow> Returns () (w, wd)
      | Some e \<Rightarrow>
          (case WriteHeader 500 w wd of
             Panics p s \<Rightarrow> Panics p s
           | Returns u (w1, wd1) \<Rightarrow>
               Returns () (w1, Print (nl @ ''<-- 500 error: '' @ '' '' @ Error e @ nl) wd1)))"

subsection \<open>\<^verbatim>\<open>getResponseFromRemote\<close>, lines 177-196\<close>

text \<open>
  \<^verbatim>\<open>http.NewRequest\<close>: an empty method means \<open>GET\<close>; the method must be a token;
  the URL must parse. The new request has an empty header.
\<close>

definition isTokenRune :: "char \<Rightarrow> bool" where
  "isTokenRune c =
     (c \<in> set ''!#$%&*+-.^_|~0123456789ABCDEFGHIJKLMNOPQRSTUVWXYZabcdefghijklmnopqrstuvwxyz''
      \<or> c = CHR 0x27 \<or> c = CHR 0x60)"

definition validMethod :: "string \<Rightarrow> bool" where
  "validMethod m = (m \<noteq> [] \<and> list_all isTokenRune m)"

definition http_NewRequest :: "string \<Rightarrow> string \<Rightarrow> world \<Rightarrow> error + client_request" where
  "http_NewRequest method url wd =
     (let m = (if method = [] then ''GET'' else method) in
      if \<not> validMethod m then Inl (InvalidMethod m)
      else if \<not> url_ok wd url then Inl (URLParseError url)
      else Inr \<lparr>cMethod = m, cURL = url, cHeader = Map.empty\<rparr>)"

text \<open>
  Line 182 keeps the request and drops the error of \<^verbatim>\<open>http.NewRequest\<close>; when the
  construction failed the request is \<open>nil\<close> and line 183 dereferences it.
\<close>

definition getResponseFromRemote ::
  "HttpVcr \<Rightarrow> request \<Rightarrow> world \<Rightarrow> (response option \<times> error option, world) outcome" where
  "getResponseFromRemote httpVcr request wd =
     (case http_NewRequest (Method request) (remoteURL httpVcr @ RequestURI request) wd of
        Inl e \<Rightarrow> Panics NilPointerDereference wd
      | Inr req0 \<Rightarrow>
          (let req = req0\<lparr>cHeader := Header_Add (cHeader req0) ''Authorization''
                                      (Header_Get (ReqHeader request) ''Authorization'')\<rparr>;
               wd1 = emit (ClientDo req) wd
           in case origin wd req of
                Inl err \<Rightarrow> Returns (None, Some err) wd1
              | Inr res \<Rightarrow> Returns (Some res, None) wd1))"

subsection \<open>\<^verbatim>\<open>getNextRecordedCassetteResponse\<close>, lines 199-210\<close>

definition getNextRecordedCassetteResponse ::
  "HttpVcr \<Rightarrow> request \<Rightarrow> (response option \<times> error option, HttpVcr) outcome" where
  "getNextRecordedCassetteResponse httpVcr request =
     (case replayer httpVcr of
        None \<Rightarrow> Panics NilPointerDereference httpVcr
      | Some rp \<Rightarrow>
          (case Replayer_Write rp (NewSerializableHttpRequest request) of
             (rp1, responseWrapper, Some err) \<Rightarrow>
               Returns (Some empty_Response, Some err) (httpVcr\<lparr>replayer := Some rp1\<rparr>)
           | (rp1, None, None) \<Rightarrow> Panics NilPointerDereference (httpVcr\<lparr>replayer := Some rp1\<rparr>)
           | (rp1, Some resp, None) \<Rightarrow>
               Returns (Some resp, None) (httpVcr\<lparr>replayer := Some rp1\<rparr>)))"

subsection \<open>\<^verbatim>\<open>handler\<close>, lines 66-112\<close>

text \<open>
  \<open>handler_transfer\<close> is lines 87-111, the part of \<^verbatim>\<open>handler\<close> that both modes
  run once they hold a response: status, the two headers, the body, and in record mode
  the write to the recorder.
\<close>

definition handler_transfer ::
  "HttpVcr \<Rightarrow> ResponseWriter \<Rightarrow> request \<Rightarrow> response \<Rightarrow> world
     \<Rightarrow> (unit, HttpVcr \<times> ResponseWriter \<times> world) outcome" where
  "handler_transfer httpVcr w r resp wd =
     (case WriteHeader (StatusCode resp) w wd of
        Panics p (w1, wd1) \<Rightarrow> Panics p (httpVcr, w1, wd1)
      | Returns u (w1, wd1) \<Rightarrow>
          (let w2 = w_Header_Set ''Content-Type'' (Header_Get (RespHeader resp) ''Content-Type'') w1;
               w3 = w_Header_Set ''Content-Length'' (Header_Get (RespHeader resp) ''Content-Length'') w2
           in case ReadAll (Body resp) of
                (bodyBytes, Some err) \<Rightarrow>
                  (case handleErrorInHandler (Some err) w3 wd1 of
                     Panics p (w4, wd2) \<Rightarrow> Panics p (httpVcr, w4, wd2)
                   | Returns u (w4, wd2) \<Rightarrow> Returns () (httpVcr, w4, wd2))
              | (bodyBytes, None) \<Rightarrow>
                  (case io_Copy bodyBytes w3 wd1 of
                     (w4, wd2) \<Rightarrow>
                       (let resp1 = resp\<lparr>Body := Bytes bodyBytes\<rparr> in
                        if recordMode httpVcr then
                          (case recorder httpVcr of
                             None \<Rightarrow> Panics NilPointerDereference (httpVcr, w4, wd2)
                           | Some rec \<Rightarrow>
                               (case Recorder_Write rec (NewSerializableHttpRequest r)
                                       (NewSerializableHttpResponse resp1) wd2 of
                                  (rec1, None, wd3) \<Rightarrow>
                                    Returns () (httpVcr\<lparr>recorder := Some rec1\<rparr>, w4, wd3)
                                | (rec1, Some err, wd3) \<Rightarrow>
                                    (case handleErrorInHandler (Some err) w4 wd3 of
                                       Panics p (w5, wd4) \<Rightarrow>
                                         Panics p (httpVcr\<lparr>recorder := Some rec1\<rparr>, w5, wd4)
                                     | Returns u (w5, wd4) \<Rightarrow>
                                         Returns () (httpVcr\<lparr>recorder := Some rec1\<rparr>, w5, wd4))))
                        else Returns () (httpVcr, w4, wd2)))))"

definition handler ::
  "HttpVcr \<Rightarrow> ResponseWriter \<Rightarrow> request \<Rightarrow> world
     \<Rightarrow> (unit, HttpVcr \<times> ResponseWriter \<times> world) outcome" where
  "handler httpVcr w r wd0 =
     (let wd = Print (nl @ ''--> '' @ Method r @ '' to '' @ RequestURI r) wd0 in
      if recordMode httpVcr then
        (case getResponseFromRemote httpVcr r wd of
           Panics p wd1 \<Rightarrow> Panics p (httpVcr, w, wd1)
         | Returns (resp, Some err) wd1 \<Rightarrow>
             (case handleErrorInHandler (Some err) w wd1 of
                Panics p (w1, wd2) \<Rightarrow> Panics p (httpVcr, w1, wd2)
              | Returns u (w1, wd2) \<Rightarrow> Returns () (httpVcr, w1, wd2))
         | Returns (None, None) wd1 \<Rightarrow> Panics NilPointerDereference (httpVcr, w, wd1)
         | Returns (Some resp, None) wd1 \<Rightarrow>
             handler_transfer httpVcr w r resp
               (Print (nl @ ''<-- '' @ Status resp @ '' from '' @ ''REMOTE'' @ nl) wd1))
      else
        (case getNextRecordedCassetteResponse httpVcr r of
           Panics p vcr1 \<Rightarrow> Panics p (vcr1, w, wd)
         | Returns (resp, Some err) vcr1 \<Rightarrow>
             (case handleErrorInHandler (Some err) w wd of
                Panics p (w1, wd2) \<Rightarrow> Panics p (vcr1, w1, wd2)
              | Returns u (w1, wd2) \<Rightarrow> Returns () (vcr1, w1, wd2))
         | Returns (None, None) vcr1 \<Rightarrow> Panics NilPointerDereference (vcr1, w, wd)
         | Returns (Some resp, None) vcr1 \<Rightarrow>
             handler_transfer vcr1 w r resp
               (Print (nl @ ''<-- '' @ Status resp @ '' from '' @ ''CASSETTE'' @ nl) wd)))"

subsection \<open>\<^verbatim>\<open>InitializeServer\<close>, lines 114-131, and the serving of requests\<close>

text \<open>
  The two handlers registered on the mux: the closure of lines 120-125 and the method
  value \<^verbatim>\<open>httpVcr.handler\<close>. Both hold the pointer to the session, so each call sees
  the session as it is at that time.
\<close>

datatype route = VcrStop | VcrHandler

type_synonym ServeMux = "(string \<times> route) list"

record Server =
  Addr :: string
  Handler :: ServeMux

definition NewServeMux :: ServeMux where
  "NewServeMux = []"

definition HandleFunc :: "string \<Rightarrow> route \<Rightarrow> ServeMux \<Rightarrow> ServeMux" where
  "HandleFunc pattern h mux = mux @ [(pattern, h)]"

definition InitializeServer :: "string \<Rightarrow> Server" where
  "InitializeServer address =
     (let customMux = HandleFunc ''/'' VcrHandler (HandleFunc ''/vcr/stop'' VcrStop NewServeMux)
      in \<lparr>Addr = address, Handler = customMux\<rparr>)"

text \<open>
  The patterns of \<^verbatim>\<open>http.ServeMux\<close>: a pattern that ends in a slash names a subtree
  and matches every path below it, any other pattern matches one path only, and the
  longest matching pattern wins. The program registers rooted patterns only, so the
  host of the request plays no part.
\<close>

definition pattern_matches :: "string \<Rightarrow> string \<Rightarrow> bool" where
  "pattern_matches pattern path =
     (if pattern \<noteq> [] \<and> last pattern = CHR ''/'' then prefix pattern path else pattern = path)"

fun mux_match :: "ServeMux \<Rightarrow> string \<Rightarrow> (string \<times> route) option" where
  "mux_match [] path = None"
| "mux_match ((p, h) # es) path =
     (case mux_match es path of
        None \<Rightarrow> if pattern_matches p path then Some (p, h) else None
      | Some (q, g) \<Rightarrow>
          if pattern_matches p path \<and> length q < length p then Some (p, h) else Some (q, g))"

text \<open>
  \<^verbatim>\<open>path.Clean\<close> on a rooted path: empty elements and \<^verbatim>\<open>.\<close> are dropped, \<^verbatim>\<open>..\<close>
  removes the element before it and is dropped at the root.
\<close>

fun split_slash :: "string \<Rightarrow> string list" where
  "split_slash [] = [[]]"
| "split_slash (c # cs) =
     (if c = CHR ''/'' then [] # split_slash cs
      else (case split_slash cs of [] \<Rightarrow> [[c]] | e # es \<Rightarrow> (c # e) # es))"

fun clean_elements :: "string list \<Rightarrow> string list \<Rightarrow> string list" where
  "clean_elements kept [] = rev kept"
| "clean_elements kept (e # es) =
     (if e = [] \<or> e = ''.'' then clean_elements kept es
      else if e = ''..'' then clean_elements (case kept of [] \<Rightarrow> [] | k # ks \<Rightarrow> ks) es
      else clean_elements (e # kept) es)"

definition path_Clean :: "string \<Rightarrow> string" where
  "path_Clean p =
     (case clean_elements [] (split_slash p) of
        [] \<Rightarrow> ''/''
      | e # es \<Rightarrow> concat (map (\<lambda>x. CHR ''/'' # x) (e # es)))"

text \<open>
  \<^verbatim>\<open>cleanPath\<close> of \<^verbatim>\<open>net/http\<close>: the path is rooted, cleaned, and keeps its
  trailing slash.
\<close>

definition cleanPath :: "string \<Rightarrow> string" where
  "cleanPath p =
     (case p of
        [] \<Rightarrow> ''/''
      | c # cs \<Rightarrow>
          (let p1 = (if c \<noteq> CHR ''/'' then CHR ''/'' # p else p);
               np = path_Clean p1
           in if last p1 = CHR ''/'' \<and> np \<noteq> ''/'' then np @ ''/'' else np))"

text \<open>
  The choice of the mux for a request (\<^verbatim>\<open>ServeMux.Handler\<close>): a path that is not
  registered while the path with a slash added is, and a path that is not clean, are
  answered with a redirect and reach no registered handler; \<open>CONNECT\<close> requests are
  not cleaned; a path that matches no pattern is not found.
\<close>

datatype mux_answer = Route route | RedirectTo string | NotFound

definition shouldRedirect :: "ServeMux \<Rightarrow> string \<Rightarrow> bool" where
  "shouldRedirect mux path =
     (if map_of mux path \<noteq> None then False
      else if path = [] then False
      else if map_of mux (path @ ''/'') \<noteq> None then last path \<noteq> CHR ''/''
      else False)"

definition mux_handler :: "ServeMux \<Rightarrow> string \<Rightarrow> mux_answer" where
  "mux_handler mux path = (case mux_match mux path of None \<Rightarrow> NotFound | Some (p, h) \<Rightarrow> Route h)"

definition mux_Handler :: "ServeMux \<Rightarrow> request \<Rightarrow> mux_answer" where
  "mux_Handler mux r =
     (if Method r = ''CONNECT'' then
        (if shouldRedirect mux (URLPath r) then RedirectTo (URLPath r @ ''/'')
         else mux_handler mux (URLPath r))
      else
        (let path = cleanPath (URLPath r) in
         if shouldRedirect mux path then RedirectTo (path @ ''/'')
         else if path \<noteq> URLPath r then RedirectTo path
         else mux_handler mux (URLPath r)))"

text \<open>The closure of lines 120-125. The result of \<^verbatim>\<open>Close\<close> is dropped.\<close>

definition vcrStop ::
  "HttpVcr \<Rightarrow> ResponseWriter \<Rightarrow> request \<Rightarrow> world
     \<Rightarrow> (unit, HttpVcr \<times> ResponseWriter \<times> world) outcome" where
  "vcrStop httpVcr w r wd0 =
     (let wd = Print (''Received /vcr/stop. Stopping...'' @ nl) (Print nl wd0) in
      case recorder httpVcr of
        None \<Rightarrow> Panics NilPointerDereference (httpVcr, w, wd)
      | Some rec \<Rightarrow>
          (case Recorder_Close rec wd of
             (rec1, err, wd1) \<Rightarrow> Returns () (httpVcr\<lparr>recorder := Some rec1\<rparr>, w, wd1)))"

text \<open>
  The answers the library gives by itself. Each sets its headers, commits its status
  and, for \<^verbatim>\<open>http.NotFound\<close>, writes its text. Of the redirect, the escaping of the
  target, its query string and the HTML body sent on \<open>GET\<close> are left out.
\<close>

definition answer :: "int \<Rightarrow> ResponseWriter \<Rightarrow> world \<Rightarrow> ResponseWriter \<times> world" where
  "answer code w wd = (case WriteHeader code w wd of Returns u s \<Rightarrow> s | Panics p s \<Rightarrow> s)"

definition http_NotFound :: "ResponseWriter \<Rightarrow> world \<Rightarrow> ResponseWriter \<times> world" where
  "http_NotFound w wd =
     (case answer 404
             (w_Header_Set ''X-Content-Type-Options'' ''nosniff''
                (w_Header_Set ''Content-Type'' ''text/plain; charset=utf-8'' w)) wd of
        (w1, wd1) \<Rightarrow> Write (''404 page not found'' @ nl) w1 wd1)"

definition http_Redirect :: "string \<Rightarrow> ResponseWriter \<Rightarrow> request \<Rightarrow> world \<Rightarrow> ResponseWriter \<times> world" where
  "http_Redirect target w r wd =
     (let w1 = w_Header_Set ''Location'' target w;
          w2 = (if handlerHeader w ''Content-Type'' = None \<and> (Method r = ''GET'' \<or> Method r = ''HEAD'')
                then w_Header_Set ''Content-Type'' ''text/html; charset=utf-8'' w1 else w1)
      in answer 301 w2 wd)"

text \<open>\<^verbatim>\<open>ServeMux.ServeHTTP\<close>: a request for \<^verbatim>\<open>*\<close> is a bad request, any other goes to the handler the mux chooses.\<close>

definition ServeMux_ServeHTTP ::
  "ServeMux \<Rightarrow> HttpVcr \<Rightarrow> ResponseWriter \<Rightarrow> request \<Rightarrow> world
     \<Rightarrow> (unit, HttpVcr \<times> ResponseWriter \<times> world) outcome" where
  "ServeMux_ServeHTTP mux httpVcr w r wd =
     (if URLPath r = ''*'' then
        (case answer 400 (if ProtoAtLeast r 1 1 then w_Header_Set ''Connection'' ''close'' w else w) wd of
           (w1, wd1) \<Rightarrow> Returns () (httpVcr, w1, wd1))
      else
        (case mux_Handler mux r of
           NotFound \<Rightarrow> (case http_NotFound w wd of (w1, wd1) \<Rightarrow> Returns () (httpVcr, w1, wd1))
         | RedirectTo target \<Rightarrow>
             (case http_Redirect target w r wd of (w1, wd1) \<Rightarrow> Returns () (httpVcr, w1, wd1))
         | Route VcrStop \<Rightarrow> vcrStop httpVcr w r wd
         | Route VcrHandler \<Rightarrow> handler httpVcr w r wd))"

text \<open>
  What the server does with a request before its handler sees it: \<open>OPTIONS *\<close> is
  answered by the server itself with an empty response, every other request goes to
  the handler of the server, here the mux.
\<close>

definition ServeHTTP ::
  "Server \<Rightarrow> HttpVcr \<Rightarrow> ResponseWriter \<Rightarrow> request \<Rightarrow> world
     \<Rightarrow> (unit, HttpVcr \<times> ResponseWriter \<times> world) outcome" where
  "ServeHTTP srv httpVcr w r wd =
     (if URLPath r = ''*'' \<and> Method r = ''OPTIONS''
      then Returns () (httpVcr, w_Header_Set ''Content-Length'' ''0'' w, wd)
      else ServeMux_ServeHTTP (Handler srv) httpVcr w r wd)"

text \<open>
  The running process: the server, the session and the world. \<^verbatim>\<open>net/http\<close> serves a
  request with a fresh response writer; when the handler returns without having written
  a status it commits 200; when the handler panics it recovers, drops the connection
  and keeps serving.
\<close>

record system =
  server :: Server
  session :: HttpVcr
  env :: world

datatype reply = Replied ResponseWriter | Dropped panic ResponseWriter

definition finishRequest :: "ResponseWriter \<Rightarrow> world \<Rightarrow> ResponseWriter \<times> world" where
  "finishRequest w wd = (if wroteHeader w then (w, wd) else commit 200 w wd)"

definition serve :: "system \<Rightarrow> request \<Rightarrow> system \<times> reply" where
  "serve sys r =
     (case ServeHTTP (server sys) (session sys) new_ResponseWriter r (env sys) of
        Returns u (vcr1, w1, wd1) \<Rightarrow>
          (case finishRequest w1 wd1 of
             (w2, wd2) \<Rightarrow> (sys\<lparr>session := vcr1, env := wd2\<rparr>, Replied w2))
      | Panics p (vcr1, w1, wd1) \<Rightarrow> (sys\<lparr>session := vcr1, env := wd1\<rparr>, Dropped p w1))"

fun serve_all :: "system \<Rightarrow> request list \<Rightarrow> system" where
  "serve_all sys [] = sys"
| "serve_all sys (r # rs) = serve_all (fst (serve sys r)) rs"

subsection \<open>Reading an outcome\<close>

fun state_of :: "('a, 's) outcome \<Rightarrow> 's" where
  "state_of (Returns x s) = s"
| "state_of (Panics p s) = s"

fun panic_of :: "('a, 's) outcome \<Rightarrow> panic option" where
  "panic_of (Returns x s) = None"
| "panic_of (Panics p s) = Some p"

text \<open>The \<open>err\<close> of a Go result pair \<open>(resp, err)\<close>.\<close>

fun returned_error :: "('a \<times> error option, 's) outcome \<Rightarrow> error option" where
  "returned_error (Returns x s) = snd x"
| "returned_error (Panics p s) = None"

definition vcr_of :: "('a, HttpVcr \<times> ResponseWriter \<times> world) outcome \<Rightarrow> HttpVcr" where
  "vcr_of out = fst (state_of out)"

definition writer_of :: "('a, HttpVcr \<times> ResponseWriter \<times> world) outcome \<Rightarrow> ResponseWriter" where
  "writer_of out = fst (snd (state_of out))"

definition world_of :: "('a, HttpVcr \<times> ResponseWriter \<times> world) outcome \<Rightarrow> world" where
  "world_of out = snd (snd (state_of out))"

text \<open>
  What the lifecycle invariant speaks about: the mode flag, and which of the two
  components is there.
\<close>

definition mode_shape :: "HttpVcr \<Rightarrow> bool \<times> bool \<times> bool" where
  "mode_shape vcr = (recordMode vcr, recorder vcr \<noteq> None, replayer vcr \<noteq> None)"

subsection \<open>Concrete inputs\<close>

text \<open>
  The cassette path and the remote of \<^verbatim>\<open>main\<close>, a request \<open>GET /ping\<close> with a
  bearer token, and an origin that answers every request with a small JSON document.
\<close>

definition example_path :: string where
  "example_path = ''main_result.yaml''"

definition example_url :: string where
  "example_url = ''https://api.stripe.com''"

definition example_response :: response where
  "example_response =
     \<lparr>Status = ''200 OK'', StatusCode = 200,
      RespHeader = [''Content-Type'' \<mapsto> [''application/json'']], Body = Bytes ''{}''\<rparr>"

definition example_request :: request where
  "example_request =
     \<lparr>Method = ''GET'', RequestURI = ''/ping'', URLPath = ''/ping'',
      ProtoMajor = 1, ProtoMinor = 1,
      ReqHeader = [''Authorization'' \<mapsto> [''Bearer sk_test'']], ReqBody = []\<rparr>"

definition example_world :: world where
  "example_world =
     \<lparr>files = Map.empty, missing = (\<lambda>p. ENOENT), denied = Map.empty, origin = (\<lambda>req. Inr example_response),
      url_ok = (\<lambda>u. True), trace = []\<rparr>"

text \<open>The same world with the origin unreachable.\<close>

definition offline_world :: world where
  "offline_world = example_world\<lparr>origin := (\<lambda>req. Inl (TransportError ''connection refused''))\<rparr>"

text \<open>A world that already holds a cassette at the path, and one where it cannot be removed.\<close>

definition stale_world :: world where
  "stale_world =
     example_world\<lparr>files := [example_path \<mapsto> Cassette [(example_request, example_response)]]\<rparr>"

definition locked_world :: world where
  "locked_world = stale_world\<lparr>denied := [example_path \<mapsto> EACCES]\<rparr>"

text \<open>A path below a plain file: the lookup fails, but not with \<open>ENOENT\<close>.\<close>

definition nested_path :: string where
  "nested_path = ''plain/main_result.yaml''"

definition nested_world :: world where
  "nested_world =
     example_world\<lparr>files := [''plain'' \<mapsto> Garbage],
                   missing := (\<lambda>p. if p = nested_path then ENOTDIR else ENOENT)\<rparr>"

definition example_recorder :: VcrRecorder where
  "example_recorder = \<lparr>targetPath = example_path, closed = False, interactionsWrittenCount = 0\<rparr>"

definition record_session :: HttpVcr where
  "record_session =
     \<lparr>recorder = Some example_recorder, replayer = None, recordMode = True, remoteURL = example_url\<rparr>"

text \<open>A replay session over the one-interaction cassette, fresh and after its only interaction was consumed.\<close>

definition replay_session :: HttpVcr where
  "replay_session =
     \<lparr>recorder = None,
      replayer = Some \<lparr>interactions = [(example_request, example_response)], consumed = [False],
                       compare = sequentialComparator\<rparr>,
      recordMode = False, remoteURL = example_url\<rparr>"

definition spent_replay_session :: HttpVcr where
  "spent_replay_session =
     \<lparr>recorder = None,
      replayer = Some \<lparr>interactions = [(example_request, example_response)], consumed = [True],
                       compare = sequentialComparator\<rparr>,
      recordMode = False, remoteURL = example_url\<rparr>"

definition example_system :: system where
  "example_system =
     \<lparr>server = InitializeServer ''localhost:8080'', session = record_session, env = example_world\<rparr>"

lemmas example_defs =
  example_path_def example_url_def example_response_def example_request_def example_world_def
  offline_world_def stale_world_def locked_world_def example_recorder_def record_session_def
  nested_path_def nested_world_def
  replay_session_def spent_replay_session_def example_system_def

lemmas run_defs =
  handler_def handler_transfer_def getResponseFromRemote_def getNextRecordedCassetteResponse_def
  handleErrorInHandler_def http_NewRequest_def validMethod_def isTokenRune_def
  WriteHeader_def Write_def io_Copy_def commit_def w_Header_Set_def Header_Get_def Header_Set_def
  Header_Add_def Print_def emit_def Recorder_Write_def Recorder_Close_def Replayer_Write_def
  NewSerializableHttpRequest_def NewSerializableHttpResponse_def cassette_append_def
  new_ResponseWriter_def vcr_of_def writer_of_def world_of_def empty_Response_def

section \<open>Properties\<close>

subsection \<open>Auxiliary facts\<close>

lemma scan_sequential: "scan sequentialComparator r1 xs i = scan sequentialComparator r2 xs i"
  by (induction xs arbitrary: i) (auto simp: sequentialComparator_def)

lemma Replayer_Write_failure:
  "Replayer_Write rp req = (rp1, x, Some err) \<Longrightarrow> rp1 = rp \<and> (err = NoMatch \<or> err = Exhausted)"
  by (auto simp: Replayer_Write_def split: if_splits option.splits prod.splits)

lemma WriteHeader_500:
  "WriteHeader 500 w wd = Returns () (if wroteHeader w then (w, wd) else commit 500 w wd)"
  by (simp add: WriteHeader_def)

text \<open>The error helper never panics: 500 is a valid status code.\<close>

lemma handleErrorInHandler_Some:
  "handleErrorInHandler (Some e) w wd =
     Returns () (fst (if wroteHeader w then (w, wd) else commit 500 w wd),
       Print (nl @ ''<-- 500 error: '' @ '' '' @ Error e @ nl)
         (snd (if wroteHeader w then (w, wd) else commit 500 w wd)))"
  by (simp add: handleErrorInHandler_def WriteHeader_500 case_prod_beta)

lemma getResponseFromRemote_Print:
  "returned_error (getResponseFromRemote vcr r (Print s wd))
     = returned_error (getResponseFromRemote vcr r wd)"
  by (simp add: getResponseFromRemote_def http_NewRequest_def Print_def emit_def Let_def
      split: sum.splits)

lemma handler_transfer_shape:
  "mode_shape (fst (state_of (handler_transfer vcr w r resp wd))) = mode_shape vcr"
  unfolding handler_transfer_def
  by (auto simp: handleErrorInHandler_Some mode_shape_def Let_def
      split: outcome.splits option.splits prod.splits if_splits)

lemma handler_shape:
  "mode_shape (fst (state_of (handler vcr w r wd))) = mode_shape vcr"
proof (cases "recordMode vcr")
  case True
  then show ?thesis
    unfolding handler_def
    by (auto simp: handleErrorInHandler_Some handler_transfer_shape Let_def
        split: outcome.splits option.splits prod.splits)
next
  case False
  have g: "mode_shape (state_of (getNextRecordedCassetteResponse vcr r)) = mode_shape vcr"
    unfolding getNextRecordedCassetteResponse_def
    by (auto simp: mode_shape_def split: option.splits prod.splits)
  from False show ?thesis
    unfolding handler_def using g
    by (auto simp: handleErrorInHandler_Some handler_transfer_shape Let_def
        split: outcome.splits option.splits prod.splits)
qed

lemma vcrStop_shape:
  "mode_shape (fst (state_of (vcrStop vcr w r wd))) = mode_shape vcr"
  unfolding vcrStop_def
  by (auto simp: mode_shape_def Let_def split: option.splits prod.splits)

lemma ServeHTTP_shape:
  "mode_shape (fst (state_of (ServeHTTP srv vcr w r wd))) = mode_shape vcr"
  unfolding ServeHTTP_def ServeMux_ServeHTTP_def
  by (auto simp: handler_shape vcrStop_shape
      split: option.splits prod.splits route.splits mux_answer.splits)

lemma serve_shape:
  "mode_shape (session (fst (serve sys r))) = mode_shape (session sys)
   \<and> server (fst (serve sys r)) = server sys"
  using ServeHTTP_shape [of "server sys" "session sys" new_ResponseWriter r "env sys"]
  unfolding serve_def
  by (auto split: outcome.splits prod.splits)

lemma serve_all_shape:
  "mode_shape (session (serve_all sys rs)) = mode_shape (session sys)
   \<and> server (serve_all sys rs) = server sys"
  by (induction rs arbitrary: sys) (simp_all add: serve_shape)

lemma mux_stop:
  "mux_match (Handler (InitializeServer a)) ''/vcr/stop'' = Some (''/vcr/stop'', VcrStop)"
  by (simp add: InitializeServer_def HandleFunc_def NewServeMux_def pattern_matches_def)

lemma mux_other:
  "path \<noteq> ''/vcr/stop'' \<Longrightarrow>
   mux_match (Handler (InitializeServer a)) path =
     (if prefix ''/'' path then Some (''/'', VcrHandler) else None)"
  by (simp add: InitializeServer_def HandleFunc_def NewServeMux_def pattern_matches_def)

text \<open>The mux of the program never redirects a path to the path with a slash added.\<close>

lemma no_slash_redirect: "shouldRedirect (Handler (InitializeServer a)) path = False"
proof -
  have "path @ ''/'' \<noteq> ''/vcr/stop''"
  proof
    assume "path @ ''/'' = ''/vcr/stop''"
    then have "last (path @ ''/'') = last ''/vcr/stop''" by simp
    then show False by simp
  qed
  then show ?thesis
    by (simp add: shouldRedirect_def InitializeServer_def HandleFunc_def NewServeMux_def)
qed

text \<open>A clean path is rooted.\<close>

lemma path_Clean_rooted: "prefix ''/'' (path_Clean p)"
  by (simp add: path_Clean_def split: list.splits)

lemma cleanPath_rooted: "prefix ''/'' (cleanPath p)"
proof -
  have a: "prefix ''/'' (x @ y)" if "prefix ''/'' x" for x y :: string
    using that by (cases x) auto
  show ?thesis
    using path_Clean_rooted
    by (auto simp: cleanPath_def Let_def a split: list.splits)
qed

lemma cleanPath_stop: "cleanPath ''/vcr/stop'' = ''/vcr/stop''"
  by (simp add: cleanPath_def path_Clean_def Let_def)

lemma mux_Handler_stop:
  "URLPath r = ''/vcr/stop'' \<Longrightarrow> mux_Handler (Handler (InitializeServer a)) r = Route VcrStop"
  by (simp add: mux_Handler_def no_slash_redirect cleanPath_stop mux_handler_def mux_stop Let_def)

lemma mux_Handler_other:
  assumes "URLPath r \<noteq> ''/vcr/stop''" and "cleanPath (URLPath r) = URLPath r"
  shows "mux_Handler (Handler (InitializeServer a)) r = Route VcrHandler"
proof -
  have "prefix ''/'' (URLPath r)"
    using cleanPath_rooted [of "URLPath r"] assms(2) by simp
  then show ?thesis
    using assms
    by (simp add: mux_Handler_def no_slash_redirect mux_handler_def mux_other Let_def)
qed

text \<open>Paths that are not clean are redirected by the mux and reach neither handler.\<close>

lemma unclean_paths_are_redirected:
  "mux_Handler (Handler (InitializeServer a)) (example_request\<lparr>URLPath := ''//ping''\<rparr>)
     = RedirectTo ''/ping''
   \<and> mux_Handler (Handler (InitializeServer a)) (example_request\<lparr>URLPath := ''/x/../vcr/stop''\<rparr>)
     = RedirectTo ''/vcr/stop''"
  by (simp add: mux_Handler_def no_slash_redirect cleanPath_def path_Clean_def example_request_def
      Let_def)

subsection \<open>Transfer of the response to the caller\<close>

text \<open>
  Claim C1 asks that the response written back to the caller has the status code, the
  \<^verbatim>\<open>Content-Type\<close> and the body of the response that was fetched or replayed.
  \<^verbatim>\<open>handler\<close> calls \<^verbatim>\<open>w.WriteHeader\<close> on line 92 and sets \<^verbatim>\<open>Content-Type\<close>
  on line 93, after the headers were committed. The theorem runs the handler on
  \<open>GET /ping\<close> in both modes, the response being \<open>200\<close> with
  \<^verbatim>\<open>Content-Type: application/json\<close> and body \<open>{}\<close>: the status and the body
  reach the caller, the headers committed with the status hold no \<^verbatim>\<open>Content-Type\<close>.
  The value set on line 93 stays in the handler's map and is never sent.
\<close>

theorem handler_drops_content_type:
  "Header_Get (RespHeader example_response) ''Content-Type'' = ''application/json''
   \<and> returned_error (getResponseFromRemote record_session example_request example_world) = None
   \<and> panic_of (handler record_session new_ResponseWriter example_request example_world) = None
   \<and> status (writer_of (handler record_session new_ResponseWriter example_request example_world)) = 200
   \<and> written (writer_of (handler record_session new_ResponseWriter example_request example_world)) = ''{}''
   \<and> sentHeader (writer_of (handler record_session new_ResponseWriter example_request example_world))
        ''Content-Type'' = None
   \<and> Header_Get (sentHeader (writer_of (handler record_session new_ResponseWriter example_request example_world)))
        ''Content-Type'' = []
   \<and> panic_of (handler replay_session new_ResponseWriter example_request example_world) = None
   \<and> status (writer_of (handler replay_session new_ResponseWriter example_request example_world)) = 200
   \<and> written (writer_of (handler replay_session new_ResponseWriter example_request example_world)) = ''{}''
   \<and> sentHeader (writer_of (handler replay_session new_ResponseWriter example_request example_world))
        ''Content-Type'' = None"
  by (simp add: example_defs run_defs sequentialComparator_def Let_def)

subsection \<open>Order of recording and answering\<close>

text \<open>
  Claim C2 asks that in record mode the interaction is appended by the recorder before
  the response is written back to the caller, and that the append is over when the
  handler returns. The theorem gives the whole trace of one recorded request: the status
  and the body go to the caller (lines 92 and 101) before the recorder appends the
  interaction (line 106); the append is the last event, inside the handler's call.
\<close>

theorem handler_writes_caller_before_recorder:
  "trace (world_of (handler record_session new_ResponseWriter example_request example_world)) =
     [Stdout (nl @ ''--> GET to /ping''),
      ClientDo \<lparr>cMethod = ''GET'', cURL = ''https://api.stripe.com/ping'',
                cHeader = [''Authorization'' \<mapsto> [''Bearer sk_test'']]\<rparr>,
      Stdout (nl @ ''<-- 200 OK from REMOTE'' @ nl),
      CallerStatus 200,
      CallerBody ''{}'',
      CassetteAppend ''main_result.yaml'' (example_request, example_response)]
   \<and> panic_of (handler record_session new_ResponseWriter example_request example_world) = None"
  by (simp add: example_defs run_defs Let_def)

subsection \<open>The sequential comparator\<close>

text \<open>
  Claim C3: the default comparator answers \<open>(True, True)\<close> for every pair, and under
  it the request has no influence on the interaction that is matched: for one replayer
  state, any two requests get the same result and leave the same state, from the
  replayer and from \<^verbatim>\<open>getNextRecordedCassetteResponse\<close>.
\<close>

theorem sequential_comparator_ignores_request:
  "sequentialComparator req stored = (True, True) \<and>
   Replayer_Write (rp\<lparr>compare := sequentialComparator\<rparr>) r1
     = Replayer_Write (rp\<lparr>compare := sequentialComparator\<rparr>) r2 \<and>
   getNextRecordedCassetteResponse (vcr\<lparr>replayer := Some (rp\<lparr>compare := sequentialComparator\<rparr>)\<rparr>) r1
     = getNextRecordedCassetteResponse (vcr\<lparr>replayer := Some (rp\<lparr>compare := sequentialComparator\<rparr>)\<rparr>) r2"
proof -
  have w: "Replayer_Write (rp\<lparr>compare := sequentialComparator\<rparr>) a
     = Replayer_Write (rp\<lparr>compare := sequentialComparator\<rparr>) b" for a b
    unfolding Replayer_Write_def using scan_sequential [of a _ 0 b] by simp
  show ?thesis
    unfolding getNextRecordedCassetteResponse_def NewSerializableHttpRequest_def
    using w [of r1 r2] by (simp add: sequentialComparator_def)
qed

subsection \<open>Construction of a session\<close>

text \<open>
  Claim C4: constructing a replay session at a path that \<^verbatim>\<open>os.Stat\<close> reports as
  not existing fails with that not-exist error; the session returned has no replayer
  and the world is untouched, so nothing was loaded and no request can have been
  served. The guard of line 38 tests \<^verbatim>\<open>os.IsNotExist\<close>: a path that cannot be
  walked fails the lookup with another error, passes the guard and reaches
  \<^verbatim>\<open>NewReplayer\<close>.
\<close>

theorem replay_missing_cassette_fails:
  assumes "os_IsNotExist (os_Stat path wd)"
  shows "NewHttpVcr path False url wd = (zero_HttpVcr, Some (PathError ''stat'' path ENOENT), wd)
     \<and> os_IsNotExist (fst (snd (NewHttpVcr path False url wd)))
     \<and> replayer (fst (NewHttpVcr path False url wd)) = None"
proof -
  have s: "os_Stat path wd = Some (PathError ''stat'' path ENOENT)"
    using assms
    by (cases "files wd path"; cases "missing wd path") (simp_all add: os_Stat_def)
  show ?thesis
    using assms by (simp add: NewHttpVcr_def s zero_HttpVcr_def)
qed

theorem replay_missing_cassette_fails_witness:
  "files example_world example_path = None
   \<and> os_IsNotExist (os_Stat example_path example_world)
   \<and> NewHttpVcr example_path False example_url example_world
        = (zero_HttpVcr, Some (PathError ''stat'' example_path ENOENT), example_world)
   \<and> os_IsNotExist (fst (snd (NewHttpVcr example_path False example_url example_world)))
   \<and> replayer (fst (NewHttpVcr example_path False example_url example_world)) = None"
proof -
  have f: "files example_world example_path = None"
    by (simp add: example_world_def)
  have h: "os_IsNotExist (os_Stat example_path example_world)"
    by (simp add: os_Stat_def example_world_def)
  show ?thesis
    using f h replay_missing_cassette_fails [OF h, of example_url]
    by (simp add: zero_HttpVcr_def)
qed

text \<open>
  The path \<open>plain/main_result.yaml\<close> below a plain file holds no file, but its lookup
  fails with \<open>ENOTDIR\<close>: the guard of line 38 lets it pass and the error returned is
  the loader's.
\<close>

lemma replay_unwalkable_path_reaches_loader:
  "files nested_world nested_path = None
   \<and> \<not> os_IsNotExist (os_Stat nested_path nested_world)
   \<and> NewHttpVcr nested_path False example_url nested_world =
        (\<lparr>recorder = None, replayer = None, recordMode = False, remoteURL = example_url\<rparr>,
         Some (PathError ''open'' nested_path ENOTDIR), nested_world)"
  by (simp add: NewHttpVcr_def os_Stat_def NewReplayer_def zero_HttpVcr_def nested_world_def
      nested_path_def example_world_def)

text \<open>
  Claim C5: constructing a record session at a path that holds a file removes the file
  before the recorder is created, so the session starts from an empty cassette; when
  the file cannot be removed, construction fails with the I/O error of
  \<^verbatim>\<open>os.Remove\<close> and no recorder is created.
\<close>

theorem record_removes_existing_cassette:
  assumes "files wd path = Some f"
  shows "(case denied wd path of
            Some e \<Rightarrow>
              NewHttpVcr path True url wd = (zero_HttpVcr, Some (PathError ''remove'' path e), wd)
          | None \<Rightarrow>
              NewHttpVcr path True url wd =
                (\<lparr>recorder = Some \<lparr>targetPath = path, closed = False, interactionsWrittenCount = 0\<rparr>,
                  replayer = None, recordMode = True, remoteURL = url\<rparr>, None,
                 wd\<lparr>files := (files wd)(path \<mapsto> Cassette []),
                    trace := trace wd @ [FileRemoved path, RecorderCreated path]\<rparr>))"
  using assms
  by (simp add: NewHttpVcr_def os_Stat_def os_Remove_def NewRecorder_def emit_def zero_HttpVcr_def
      split: option.splits)

theorem record_removes_existing_cassette_witness:
  "files stale_world example_path = Some (Cassette [(example_request, example_response)])
   \<and> NewHttpVcr example_path True example_url stale_world =
        (record_session, None,
         stale_world\<lparr>files := [example_path \<mapsto> Cassette []],
                     trace := [FileRemoved example_path, RecorderCreated example_path]\<rparr>)
   \<and> files locked_world example_path = Some (Cassette [(example_request, example_response)])
   \<and> NewHttpVcr example_path True example_url locked_world =
        (zero_HttpVcr, Some (PathError ''remove'' example_path EACCES), locked_world)"
proof -
  have a: "files stale_world example_path = Some (Cassette [(example_request, example_response)])"
    by (simp add: stale_world_def)
  have b: "files locked_world example_path = Some (Cassette [(example_request, example_response)])"
    by (simp add: locked_world_def stale_world_def)
  have c: "denied stale_world example_path = None"
    by (simp add: stale_world_def example_world_def)
  have d: "denied locked_world example_path = Some EACCES"
    by (simp add: locked_world_def)
  have e: "files stale_world = [example_path \<mapsto> Cassette [(example_request, example_response)]]"
    "trace stale_world = []"
    by (simp_all add: stale_world_def example_world_def)
  show ?thesis
    using a b record_removes_existing_cassette [OF a, of example_url]
      record_removes_existing_cassette [OF b, of example_url]
    by (simp add: c d e record_session_def example_recorder_def)
qed

subsection \<open>Failures of one request\<close>

text \<open>
  Claim C6 asks that a failed fetch or a failed replay is answered with a 500-class
  status and a body that contains the failure reason, and that the process keeps
  serving. As stated it fails: \<^verbatim>\<open>handleErrorInHandler\<close> writes the status and prints
  the error to the console, it writes no body. With the origin unreachable the answer
  is \<open>500\<close> with an empty body, which does not contain the reason
  \<open>connection refused\<close>.
\<close>

theorem failure_body_is_empty:
  "recordMode record_session
   \<and> returned_error (getResponseFromRemote record_session example_request offline_world)
       = Some (TransportError ''connection refused'')
   \<and> Error (TransportError ''connection refused'') = ''connection refused''
   \<and> status (writer_of (handler record_session new_ResponseWriter example_request offline_world)) = 500
   \<and> written (writer_of (handler record_session new_ResponseWriter example_request offline_world)) = []
   \<and> \<not> sublist (Error (TransportError ''connection refused''))
         (written (writer_of (handler record_session new_ResponseWriter example_request offline_world)))"
  by (simp add: example_defs run_defs Let_def)

text \<open>
  Claim C6 as amended: when the fetch (record mode) or the replay (replay mode) returns an
  error, the handler of a request whose status is not yet written returns normally,
  leaves the session as it was, commits status 500 and writes no body byte; the error
  text goes to the console only.
\<close>

theorem failure_gives_500_without_body:
  assumes "\<not> wroteHeader w"
    and "if recordMode vcr
         then returned_error (getResponseFromRemote vcr r wd) = Some err
         else returned_error (getNextRecordedCassetteResponse vcr r) = Some err"
  shows "panic_of (handler vcr w r wd) = None
     \<and> vcr_of (handler vcr w r wd) = vcr
     \<and> writer_of (handler vcr w r wd) = w\<lparr>wroteHeader := True, status := 500, sentHeader := handlerHeader w\<rparr>
     \<and> written (writer_of (handler vcr w r wd)) = written w
     \<and> world_of (handler vcr w r wd) =
          Print (nl @ ''<-- 500 error: '' @ '' '' @ Error err @ nl)
            (emit (CallerStatus 500)
               (if recordMode vcr
                then state_of (getResponseFromRemote vcr r (Print (nl @ ''--> '' @ Method r @ '' to '' @ RequestURI r) wd))
                else Print (nl @ ''--> '' @ Method r @ '' to '' @ RequestURI r) wd))"
proof (cases "recordMode vcr")
  case True
  with assms(2) have "returned_error (getResponseFromRemote vcr r (Print (nl @ ''--> '' @ Method r @ '' to '' @ RequestURI r) wd)) = Some err"
    by (simp add: getResponseFromRemote_Print)
  then obtain x wd1 where g: "getResponseFromRemote vcr r (Print (nl @ ''--> '' @ Method r @ '' to '' @ RequestURI r) wd) = Returns (x, Some err) wd1"
    by (cases "getResponseFromRemote vcr r (Print (nl @ ''--> '' @ Method r @ '' to '' @ RequestURI r) wd)") auto
  have h: "handler vcr w r wd = Returns () (vcr, fst (commit 500 w wd1),
             Print (nl @ ''<-- 500 error: '' @ '' '' @ Error err @ nl) (snd (commit 500 w wd1)))"
    using True assms(1) g
    by (simp add: handler_def Let_def handleErrorInHandler_Some split: option.splits)
  show ?thesis
    using True g unfolding h by (simp add: vcr_of_def writer_of_def world_of_def commit_def)
next
  case False
  with assms(2) have e: "returned_error (getNextRecordedCassetteResponse vcr r) = Some err"
    by simp
  then obtain rp where rp: "replayer vcr = Some rp"
    by (cases "replayer vcr") (auto simp: getNextRecordedCassetteResponse_def)
  obtain rp1 x e1 where w: "Replayer_Write rp (NewSerializableHttpRequest r) = (rp1, x, e1)"
    by (cases "Replayer_Write rp (NewSerializableHttpRequest r)") auto
  with e rp have e1: "e1 = Some err"
    by (cases e1; cases x) (auto simp: getNextRecordedCassetteResponse_def)
  with w have same: "rp1 = rp"
    using Replayer_Write_failure by blast
  have u: "vcr\<lparr>replayer := Some rp\<rparr> = vcr"
    using rp by simp
  from w e1 rp same
  have g: "getNextRecordedCassetteResponse vcr r = Returns (Some empty_Response, Some err) vcr"
    by (simp add: getNextRecordedCassetteResponse_def u split: option.splits)
  have h: "handler vcr w r wd =
             Returns () (vcr, fst (commit 500 w (Print (nl @ ''--> '' @ Method r @ '' to '' @ RequestURI r) wd)),
               Print (nl @ ''<-- 500 error: '' @ '' '' @ Error err @ nl)
                 (snd (commit 500 w (Print (nl @ ''--> '' @ Method r @ '' to '' @ RequestURI r) wd))))"
    using False assms(1) g
    by (simp add: handler_def Let_def handleErrorInHandler_Some split: option.splits)
  show ?thesis
    using False unfolding h by (simp add: vcr_of_def writer_of_def world_of_def commit_def)
qed

theorem failure_gives_500_without_body_witness:
  "\<not> wroteHeader new_ResponseWriter
   \<and> \<not> recordMode spent_replay_session
   \<and> returned_error (getNextRecordedCassetteResponse spent_replay_session example_request) = Some Exhausted
   \<and> panic_of (handler spent_replay_session new_ResponseWriter example_request example_world) = None
   \<and> vcr_of (handler spent_replay_session new_ResponseWriter example_request example_world) = spent_replay_session
   \<and> status (writer_of (handler spent_replay_session new_ResponseWriter example_request example_world)) = 500
   \<and> written (writer_of (handler spent_replay_session new_ResponseWriter example_request example_world)) = []
   \<and> recordMode record_session
   \<and> returned_error (getResponseFromRemote record_session example_request offline_world)
        = Some (TransportError ''connection refused'')
   \<and> panic_of (handler record_session new_ResponseWriter example_request offline_world) = None
   \<and> vcr_of (handler record_session new_ResponseWriter example_request offline_world) = record_session
   \<and> status (writer_of (handler record_session new_ResponseWriter example_request offline_world)) = 500
   \<and> written (writer_of (handler record_session new_ResponseWriter example_request offline_world)) = []"
proof -
  have a: "\<not> wroteHeader new_ResponseWriter"
    by (simp add: new_ResponseWriter_def)
  have m: "\<not> recordMode spent_replay_session"
    by (simp add: spent_replay_session_def)
  have e: "returned_error (getNextRecordedCassetteResponse spent_replay_session example_request) = Some Exhausted"
    by (simp add: spent_replay_session_def getNextRecordedCassetteResponse_def Replayer_Write_def)
  have b: "if recordMode spent_replay_session
         then returned_error (getResponseFromRemote spent_replay_session example_request example_world) = Some Exhausted
         else returned_error (getNextRecordedCassetteResponse spent_replay_session example_request) = Some Exhausted"
    using m e by simp
  have m': "recordMode record_session"
    by (simp add: record_session_def)
  have e': "returned_error (getResponseFromRemote record_session example_request offline_world)
        = Some (TransportError ''connection refused'')"
    by (simp add: example_defs run_defs Let_def)
  have b': "if recordMode record_session
         then returned_error (getResponseFromRemote record_session example_request offline_world)
                = Some (TransportError ''connection refused'')
         else returned_error (getNextRecordedCassetteResponse record_session example_request)
                = Some (TransportError ''connection refused'')"
    using m' e' by simp
  show ?thesis
    using a m e m' e'
      failure_gives_500_without_body [OF a b]
      failure_gives_500_without_body [OF a b']
    by (simp add: new_ResponseWriter_def)
qed

subsection \<open>The outbound request\<close>

text \<open>
  Claim C7: in record mode the request sent to the remote has the method of the inbound
  request, the base URL followed by the inbound request URI, and the inbound
  \<^verbatim>\<open>Authorization\<close> value. The inbound method is not empty (a served request always
  has one). Whenever \<^verbatim>\<open>getResponseFromRemote\<close> returns, it has sent exactly one
  request, of that shape; when it panics instead, it has sent none.
\<close>

theorem outbound_request_shape:
  assumes "Method request \<noteq> []"
  shows "case getResponseFromRemote httpVcr request wd of
           Panics p wd1 \<Rightarrow> wd1 = wd
         | Returns x wd1 \<Rightarrow>
             (\<exists>req. wd1 = emit (ClientDo req) wd
                \<and> cMethod req = Method request
                \<and> cURL req = remoteURL httpVcr @ RequestURI request
                \<and> cHeader req ''Authorization'' = Some [Header_Get (ReqHeader request) ''Authorization''])"
  using assms
  by (auto simp: getResponseFromRemote_def http_NewRequest_def Header_Add_def Let_def
      split: sum.splits if_splits)

theorem outbound_request_shape_witness:
  "Method example_request \<noteq> []
   \<and> getResponseFromRemote record_session example_request example_world =
       Returns (Some example_response, None)
         (emit (ClientDo \<lparr>cMethod = ''GET'', cURL = ''https://api.stripe.com/ping'',
                           cHeader = [''Authorization'' \<mapsto> [''Bearer sk_test'']]\<rparr>) example_world)"
proof -
  have a: "Method example_request \<noteq> []"
    by (simp add: example_request_def)
  have r: "getResponseFromRemote record_session example_request example_world =
       Returns (Some example_response, None)
         (emit (ClientDo \<lparr>cMethod = ''GET'', cURL = ''https://api.stripe.com/ping'',
                           cHeader = [''Authorization'' \<mapsto> [''Bearer sk_test'']]\<rparr>) example_world)"
    by (simp add: example_defs getResponseFromRemote_def http_NewRequest_def validMethod_def
        isTokenRune_def Header_Add_def Header_Get_def Let_def)
  show ?thesis
    using a r outbound_request_shape [OF a, where httpVcr = record_session and wd = example_world] by simp
qed

subsection \<open>The control route\<close>

text \<open>
  Claim C8: with a recorder in the session, a request to \<^verbatim>\<open>/vcr/stop\<close> calls
  \<^verbatim>\<open>Close\<close> on that recorder and answers; the recorder is closed afterwards. The
  server is the one \<^verbatim>\<open>InitializeServer\<close> built, address and mux with both
  registrations unchanged, and every later request to another path is still given to
  the VCR handler, the path being clean as the mux demands (a path that is not clean
  is answered by the mux with a redirect).
\<close>

theorem stop_closes_recorder_keeps_server:
  assumes "recorder (session sys) = Some rec"
    and "server sys = InitializeServer addr"
    and "URLPath r = ''/vcr/stop''"
  shows "(case Recorder_Close rec (Print (''Received /vcr/stop. Stopping...'' @ nl) (Print nl (env sys))) of
            (rec1, err, wd1) \<Rightarrow>
              serve sys r =
                (sys\<lparr>session := (session sys)\<lparr>recorder := Some rec1\<rparr>,
                     env := emit (CallerStatus 200) wd1\<rparr>,
                 Replied (fst (commit 200 new_ResponseWriter wd1))))
     \<and> closed (the (recorder (session (fst (serve sys r)))))
     \<and> server (fst (serve sys r)) = InitializeServer addr
     \<and> (\<forall>r' vcr w wd.
           URLPath r' \<noteq> ''/vcr/stop'' \<and> cleanPath (URLPath r') = URLPath r' \<longrightarrow>
           ServeHTTP (server (fst (serve sys r))) vcr w r' wd = handler vcr w r' wd)"
proof -
  have s: "server (fst (serve sys r)) = InitializeServer addr"
    using assms(2) by (simp add: serve_shape)
  have d: "ServeHTTP (server sys) (session sys) new_ResponseWriter r (env sys)
             = vcrStop (session sys) new_ResponseWriter r (env sys)"
    using assms by (simp add: ServeHTTP_def ServeMux_ServeHTTP_def mux_Handler_stop)
  have e: "(case Recorder_Close rec (Print (''Received /vcr/stop. Stopping...'' @ nl) (Print nl (env sys))) of
            (rec1, err, wd1) \<Rightarrow>
              serve sys r =
                (sys\<lparr>session := (session sys)\<lparr>recorder := Some rec1\<rparr>,
                     env := emit (CallerStatus 200) wd1\<rparr>,
                 Replied (fst (commit 200 new_ResponseWriter wd1))))"
    using assms(1) unfolding serve_def d
    by (simp add: vcrStop_def Let_def finishRequest_def new_ResponseWriter_def
        commit_def split: prod.splits)
  have c: "closed (the (recorder (session (fst (serve sys r)))))"
    using e by (auto simp: Recorder_Close_def split: prod.splits if_splits)
  have f: "ServeHTTP (server (fst (serve sys r))) vcr w r' wd = handler vcr w r' wd"
    if h: "URLPath r' \<noteq> ''/vcr/stop'' \<and> cleanPath (URLPath r') = URLPath r'" for r' vcr w wd
  proof -
    have "prefix ''/'' (URLPath r')"
      using cleanPath_rooted [of "URLPath r'"] h by simp
    then have star: "URLPath r' \<noteq> ''*''"
      by auto
    show ?thesis
      using h star by (simp add: s ServeHTTP_def ServeMux_ServeHTTP_def mux_Handler_other)
  qed
  from s e c f show ?thesis by blast
qed

theorem stop_closes_recorder_keeps_server_witness:
  "recorder (session example_system) = Some example_recorder
   \<and> server example_system = InitializeServer ''localhost:8080''
   \<and> URLPath (example_request\<lparr>URLPath := ''/vcr/stop''\<rparr>) = ''/vcr/stop''
   \<and> closed (the (recorder (session (fst (serve example_system (example_request\<lparr>URLPath := ''/vcr/stop''\<rparr>))))))
   \<and> server (fst (serve example_system (example_request\<lparr>URLPath := ''/vcr/stop''\<rparr>)))
        = InitializeServer ''localhost:8080''
   \<and> URLPath example_request \<noteq> ''/vcr/stop''
   \<and> cleanPath (URLPath example_request) = URLPath example_request
   \<and> ServeHTTP (server (fst (serve example_system (example_request\<lparr>URLPath := ''/vcr/stop''\<rparr>))))
         record_session new_ResponseWriter example_request example_world
        = handler record_session new_ResponseWriter example_request example_world"
proof -
  have a: "recorder (session example_system) = Some example_recorder"
    by (simp add: example_system_def record_session_def)
  have b: "server example_system = InitializeServer ''localhost:8080''"
    by (simp add: example_system_def)
  have c: "URLPath (example_request\<lparr>URLPath := ''/vcr/stop''\<rparr>) = ''/vcr/stop''"
    by simp
  have d: "URLPath example_request \<noteq> ''/vcr/stop''
      \<and> cleanPath (URLPath example_request) = URLPath example_request"
    by (simp add: example_request_def cleanPath_def path_Clean_def Let_def)
  note t = stop_closes_recorder_keeps_server [OF a b c]
  from t have t1: "closed (the (recorder (session (fst (serve example_system (example_request\<lparr>URLPath := ''/vcr/stop''\<rparr>))))))"
    by blast
  from t have t2: "server (fst (serve example_system (example_request\<lparr>URLPath := ''/vcr/stop''\<rparr>)))
        = InitializeServer ''localhost:8080''"
    by blast
  from t d have t3: "ServeHTTP (server (fst (serve example_system (example_request\<lparr>URLPath := ''/vcr/stop''\<rparr>))))
         record_session new_ResponseWriter example_request example_world
        = handler record_session new_ResponseWriter example_request example_world"
    by blast
  from a b c d t1 t2 t3 show ?thesis by blast
qed

subsection \<open>One mode for the lifetime of a session\<close>

text \<open>
  Claim C9: a session that the constructor returns without error has exactly one of
  recorder and replayer, the recorder exactly in record mode; and serving any sequence
  of requests, on either route, changes neither the mode nor which of the two is
  there.
\<close>

theorem session_mode_fixed:
  assumes "NewHttpVcr path mode url wd = (vcr, None, wd1)"
  shows "(recorder vcr \<noteq> None) = mode \<and> (replayer vcr \<noteq> None) = (\<not> mode)
     \<and> recordMode vcr = mode
     \<and> recordMode (session (serve_all \<lparr>server = srv, session = vcr, env = wd2\<rparr> rs)) = mode
     \<and> (recorder (session (serve_all \<lparr>server = srv, session = vcr, env = wd2\<rparr> rs)) \<noteq> None) = mode
     \<and> (replayer (session (serve_all \<lparr>server = srv, session = vcr, env = wd2\<rparr> rs)) \<noteq> None) = (\<not> mode)"
proof -
  have a: "mode_shape vcr = (mode, mode, \<not> mode)"
    using assms
    unfolding NewHttpVcr_def mode_shape_def
    by (auto simp: zero_HttpVcr_def NewRecorder_def NewReplayer_def Let_def
        split: if_splits prod.splits option.splits file_content.splits)
  have b: "mode_shape (session (serve_all \<lparr>server = srv, session = vcr, env = wd2\<rparr> rs)) = mode_shape vcr"
    using serve_all_shape [of "\<lparr>server = srv, session = vcr, env = wd2\<rparr>" rs] by simp
  from a b show ?thesis by (auto simp: mode_shape_def)
qed

theorem session_mode_fixed_witness:
  "NewHttpVcr example_path True example_url example_world =
     (record_session, None,
      example_world\<lparr>files := [example_path \<mapsto> Cassette []], trace := [RecorderCreated example_path]\<rparr>)
   \<and> recorder record_session \<noteq> None \<and> replayer record_session = None
   \<and> recordMode (session (serve_all example_system
         [example_request, example_request\<lparr>URLPath := ''/vcr/stop''\<rparr>, example_request]))
   \<and> recorder (session (serve_all example_system
         [example_request, example_request\<lparr>URLPath := ''/vcr/stop''\<rparr>, example_request])) \<noteq> None
   \<and> replayer (session (serve_all example_system
         [example_request, example_request\<lparr>URLPath := ''/vcr/stop''\<rparr>, example_request])) = None"
proof -
  have a: "NewHttpVcr example_path True example_url example_world =
     (record_session, None,
      example_world\<lparr>files := [example_path \<mapsto> Cassette []], trace := [RecorderCreated example_path]\<rparr>)"
    by (simp add: NewHttpVcr_def os_Stat_def NewRecorder_def emit_def zero_HttpVcr_def
        example_world_def record_session_def example_recorder_def)
  have s: "example_system =
     \<lparr>server = InitializeServer ''localhost:8080'', session = record_session, env = example_world\<rparr>"
    by (simp add: example_system_def)
  show ?thesis
    using a session_mode_fixed [OF a, where srv = "InitializeServer ''localhost:8080''"
        and ?wd2.0 = example_world
        and rs = "[example_request, example_request\<lparr>URLPath := ''/vcr/stop''\<rparr>, example_request]"]
    unfolding s by simp
qed

subsection \<open>The control route without a recorder\<close>

text \<open>
  Claim C10: the closure registered for \<^verbatim>\<open>/vcr/stop\<close> calls \<^verbatim>\<open>Close\<close> on the
  recorder field without looking at the mode or at the field. A session constructed in
  replay mode has no recorder, on every path through the constructor; on any session
  without a recorder the closure panics with a nil dereference; and the server
  answers such a request with no response at all, the connection being dropped.
\<close>

theorem stop_without_recorder_panics:
  "recorder (fst (NewHttpVcr path False url wd)) = None \<and>
   vcrStop (httpVcr\<lparr>recorder := None\<rparr>) w r wd' =
     Panics NilPointerDereference
       (httpVcr\<lparr>recorder := None\<rparr>, w, Print (''Received /vcr/stop. Stopping...'' @ nl) (Print nl wd')) \<and>
   snd (serve \<lparr>server = InitializeServer addr, session = fst (NewHttpVcr path False url wd), env = wd'\<rparr>
          (r\<lparr>URLPath := ''/vcr/stop''\<rparr>)) = Dropped NilPointerDereference new_ResponseWriter"
proof -
  have a: "recorder (fst (NewHttpVcr path False url wd)) = None"
    by (auto simp: NewHttpVcr_def zero_HttpVcr_def Let_def split: prod.splits)
  have b: "vcrStop (httpVcr\<lparr>recorder := None\<rparr>) w r wd' =
     Panics NilPointerDereference
       (httpVcr\<lparr>recorder := None\<rparr>, w, Print (''Received /vcr/stop. Stopping...'' @ nl) (Print nl wd'))"
    by (simp add: vcrStop_def Let_def)
  have c: "snd (serve \<lparr>server = InitializeServer addr, session = fst (NewHttpVcr path False url wd), env = wd'\<rparr>
          (r\<lparr>URLPath := ''/vcr/stop''\<rparr>)) = Dropped NilPointerDereference new_ResponseWriter"
    using a
    by (simp add: serve_def ServeHTTP_def ServeMux_ServeHTTP_def mux_Handler_stop vcrStop_def Let_def)
  from a b c show ?thesis by simp
qed

subsection \<open>What the transfer does guarantee\<close>

text \<open>
  Lines 92-103 on a response whose status code is a valid final code and whose body
  reads without error, for a request whose status is not yet written: the caller gets the status code
  and the body bytes of the response, in every mode and whatever the recorder does
  afterwards. The headers sent are those the writer held before the call.
\<close>

theorem transfer_status_and_body:
  assumes "\<not> wroteHeader w"
    and "StatusCode resp = 101 \<or> (200 \<le> StatusCode resp \<and> StatusCode resp \<le> 999)"
    and "Body resp = Bytes bs"
  shows "status (writer_of (handler_transfer vcr w r resp wd)) = StatusCode resp
     \<and> written (writer_of (handler_transfer vcr w r resp wd)) = written w @ bs
     \<and> sentHeader (writer_of (handler_transfer vcr w r resp wd)) = handlerHeader w"
  using assms
  unfolding handler_transfer_def writer_of_def
  by (auto simp: WriteHeader_def commit_def io_Copy_def Write_def w_Header_Set_def
      handleErrorInHandler_Some Let_def
      split: option.splits prod.splits)

theorem transfer_status_and_body_witness:
  "\<not> wroteHeader new_ResponseWriter
   \<and> (StatusCode example_response = 101
        \<or> (200 \<le> StatusCode example_response \<and> StatusCode example_response \<le> 999))
   \<and> Body example_response = Bytes ''{}''
   \<and> status (writer_of (handler_transfer record_session new_ResponseWriter example_request example_response example_world)) = 200
   \<and> written (writer_of (handler_transfer record_session new_ResponseWriter example_request example_response example_world)) = ''{}''
   \<and> sentHeader (writer_of (handler_transfer record_session new_ResponseWriter example_request example_response example_world)) = Map.empty"
proof -
  have a: "\<not> wroteHeader new_ResponseWriter"
    by (simp add: new_ResponseWriter_def)
  have b: "StatusCode example_response = 101
      \<or> (200 \<le> StatusCode example_response \<and> StatusCode example_response \<le> 999)"
    by (simp add: example_response_def)
  have c: "Body example_response = Bytes ''{}''"
    by (simp add: example_response_def)
  show ?thesis
    using a b c transfer_status_and_body [OF a b c, of record_session example_request example_world]
    by (simp add: new_ResponseWriter_def example_response_def)
qed

text \<open>
  Lines 105-111 in record mode, on the same kind of response: the handler returns
  normally, and at that point the write to the recorder is over. Either the interaction
  is in the cassette file and its append is the last event, or the recorder refused
  (closed, or an I/O error), the file is as before and the error was printed last.
\<close>

theorem record_append_done_at_return:
  assumes "recordMode vcr" and "recorder vcr = Some rec"
    and "100 \<le> StatusCode resp \<and> StatusCode resp \<le> 999"
    and "Body resp = Bytes bs"
  shows "panic_of (handler_transfer vcr w r resp wd) = None
     \<and> (if closed rec
         then files (world_of (handler_transfer vcr w r resp wd)) = files wd
              \<and> last (trace (world_of (handler_transfer vcr w r resp wd)))
                   = Stdout (nl @ ''<-- 500 error: '' @ '' '' @ Error RecorderClosed @ nl)
         else case denied wd (targetPath rec) of
                Some e \<Rightarrow>
                  files (world_of (handler_transfer vcr w r resp wd)) = files wd
                  \<and> last (trace (world_of (handler_transfer vcr w r resp wd)))
                       = Stdout (nl @ ''<-- 500 error: '' @ '' '' @ Error (PathError ''write'' (targetPath rec) e) @ nl)
              | None \<Rightarrow>
                  files (world_of (handler_transfer vcr w r resp wd)) =
                    (files wd)(targetPath rec \<mapsto> cassette_append (files wd (targetPath rec)) (r, resp))
                  \<and> last (trace (world_of (handler_transfer vcr w r resp wd)))
                       = CassetteAppend (targetPath rec) (r, resp))"
proof -
  have same: "resp\<lparr>Body := Bytes b\<rparr> = resp" if "Body resp = Bytes b" for b
    using that by simp
  show ?thesis
    using assms
    unfolding handler_transfer_def world_of_def
    by (auto simp: WriteHeader_def commit_def io_Copy_def Write_def w_Header_Set_def
        handleErrorInHandler_Some Let_def Recorder_Write_def emit_def Print_def same
        NewSerializableHttpRequest_def NewSerializableHttpResponse_def
        split: option.splits prod.splits)
qed

theorem record_append_done_at_return_witness:
  "recordMode record_session \<and> recorder record_session = Some example_recorder
   \<and> 100 \<le> StatusCode example_response \<and> StatusCode example_response \<le> 999
   \<and> Body example_response = Bytes ''{}''
   \<and> \<not> closed example_recorder \<and> denied example_world (targetPath example_recorder) = None
   \<and> panic_of (handler_transfer record_session new_ResponseWriter example_request example_response example_world) = None
   \<and> files (world_of (handler_transfer record_session new_ResponseWriter example_request example_response example_world))
        = [example_path \<mapsto> Cassette [(example_request, example_response)]]
   \<and> last (trace (world_of (handler_transfer record_session new_ResponseWriter example_request example_response example_world)))
        = CassetteAppend example_path (example_request, example_response)"
proof -
  have a: "recordMode record_session"
    by (simp add: record_session_def)
  have b: "recorder record_session = Some example_recorder"
    by (simp add: record_session_def)
  have c: "100 \<le> StatusCode example_response \<and> StatusCode example_response \<le> 999"
    by (simp add: example_response_def)
  have d: "Body example_response = Bytes ''{}''"
    by (simp add: example_response_def)
  have e: "\<not> closed example_recorder" "denied example_world (targetPath example_recorder) = None"
    "targetPath example_recorder = example_path" "files example_world = Map.empty"
    by (simp_all add: example_recorder_def example_world_def)
  show ?thesis
    using a b c d e
      record_append_done_at_return [OF a b c d, of new_ResponseWriter example_request example_world]
    by (simp add: cassette_append_def)
qed

end
